theory Spec2Isabelle
  imports Main "HOL-Library.AList" "HOL-Library.Char_ord"
begin

section \<open>Data model (package models)\<close>

text \<open>
  A Go \<^verbatim>\<open>time.Time\<close> is an instant; it is modelled as an integer offset from Go's
  zero instant, so that \<open>0\<close> is the zero value a field has when the client left it out.
  Go strings are byte sequences, as \<^typ>\<open>string\<close> is here; a nil slice and an empty
  slice are both \<open>[]\<close> wherever the code only ranges over them or takes their length.
\<close>

type_synonym time = int

type_synonym UserRole = string

definition RoleAdmin :: UserRole where
  "RoleAdmin = ''ADMIN''"

definition RoleSupervisor :: UserRole where
  "RoleSupervisor = ''SUPERVISOR''"

definition RoleGateOperator :: UserRole where
  "RoleGateOperator = ''GATE_OPERATOR''"

record Entry =
  RecordID :: string
  CheckpointID :: string
  EntryType :: string
  LoggingUserID :: string
  ClientTS :: time
  UpdatedAt :: time
  CreatedAt :: time
  Status :: string
  Payload :: "(string \<times> string) list"

record User =
  UserID :: string
  Username :: string
  Role :: UserRole
  AllowedCheckpoints :: "string list"
  SupervisorID :: string
  ManagedOperators :: "string list"
  LastLogin :: time

section \<open>Password policy (package auth)\<close>

datatype auth_error =
    PasswordTooShort
  | PasswordNoLetter
  | PasswordNoNumber
  | HashFailed

definition MinPasswordLength :: nat where
  "MinPasswordLength = 8"

definition BcryptCost :: nat where
  "BcryptCost = 14"

text \<open>
  \<^verbatim>\<open>bcrypt.GenerateFromPassword\<close> is a library primitive: it is a parameter of
  \<open>HashPassword\<close>, \<open>None\<close> standing for its error return.
\<close>

type_synonym bcrypt_gen = "string \<Rightarrow> nat \<Rightarrow> string option"

definition HashPassword :: "bcrypt_gen \<Rightarrow> string \<Rightarrow> auth_error + string" where
  "HashPassword bcrypt password =
     (if length password < MinPasswordLength then Inl PasswordTooShort
      else case bcrypt password BcryptCost of
             None \<Rightarrow> Inl HashFailed
           | Some bytes \<Rightarrow> Inr bytes)"

definition isLetter :: "char \<Rightarrow> bool" where
  "isLetter c = ((CHR ''a'' \<le> c \<and> c \<le> CHR ''z'') \<or> (CHR ''A'' \<le> c \<and> c \<le> CHR ''Z''))"

definition isNumber :: "char \<Rightarrow> bool" where
  "isNumber c = (CHR ''0'' \<le> c \<and> c \<le> CHR ''9'')"

text \<open>
  The loop of \<open>ValidatePasswordStrength\<close> ranges over the runes of the password and only
  asks whether a rune is an ASCII letter or digit. UTF-8 encodes exactly the ASCII runes as
  single bytes below 128 and every other rune (and every invalid byte) as something that is
  not ASCII, so the two flags are the same when the loop runs over the bytes.
\<close>

fun strengthLoop :: "string \<Rightarrow> bool \<times> bool \<Rightarrow> bool \<times> bool" where
  "strengthLoop [] flags = flags"
| "strengthLoop (c # cs) (hasLetter, hasNumber) =
     strengthLoop cs
       (if isLetter c then True else hasLetter,
        if isNumber c then True else hasNumber)"

definition ValidatePasswordStrength :: "string \<Rightarrow> auth_error option" where
  "ValidatePasswordStrength password =
     (if length password < MinPasswordLength then Some PasswordTooShort
      else case strengthLoop password (False, False) of
             (hasLetter, hasNumber) \<Rightarrow>
               if \<not> hasLetter then Some PasswordNoLetter
               else if \<not> hasNumber then Some PasswordNoNumber
               else None)"

text \<open>The text of \<^verbatim>\<open>err.Error()\<close>; the minimum length is printed in decimal.\<close>

fun errorText :: "auth_error \<Rightarrow> string" where
  "errorText PasswordTooShort = ''password must be at least 8 characters''"
| "errorText PasswordNoLetter = ''password must contain at least one letter''"
| "errorText PasswordNoNumber = ''password must contain at least one number''"
| "errorText HashFailed = ''failed to hash password''"

text \<open>A stand-in for the bcrypt primitive, used only to evaluate examples.\<close>

definition sampleBcrypt :: bcrypt_gen where
  "sampleBcrypt password cost = Some (''$2a$'' @ password)"

section \<open>The document store (db/firestore.go)\<close>

text \<open>
  Firestore is an external service. A collection is modelled as an association list from
  document id to document; \<open>Set\<close> on a document id replaces the document in place or adds
  it. The order in which a collection is listed is the store's own. Every call is appended
  to \<open>calls\<close>, and a call may fail for reasons outside the program: the call made when
  \<open>n\<close> calls have been made before fails exactly when \<open>n\<close> is listed in \<open>outage\<close>.
  Documents of a collection are typed, so the \<^verbatim>\<open>DataTo\<close> parse failures of the
  listing loops do not arise.
\<close>

datatype db_call =
    SetEntry Entry
  | ListEntries
  | QueryEntriesSince time
  | SetUser User
  | GetUserDoc string
  | QueryUserByUsername string
  | DeleteUserDoc string
  | SetPassword string string time

datatype db_error = Unavailable | NotFound

record FirestoreDB =
  entriesColl :: "(string \<times> Entry) list"
  usersColl :: "(string \<times> User) list"
  passwordsColl :: "(string \<times> string \<times> time) list"
  calls :: "db_call list"
  outage :: "nat list"

definition callFails :: "FirestoreDB \<Rightarrow> bool" where
  "callFails db = (length (calls db) \<in> set (outage db))"

definition logCall :: "db_call \<Rightarrow> FirestoreDB \<Rightarrow> FirestoreDB" where
  "logCall c db = db\<lparr>calls := calls db @ [c]\<rparr>"

definition CreateEntry :: "Entry \<Rightarrow> FirestoreDB \<Rightarrow> db_error option \<times> FirestoreDB" where
  "CreateEntry entry db =
     (if callFails db then (Some Unavailable, logCall (SetEntry entry) db)
      else (None, (logCall (SetEntry entry) db)
              \<lparr>entriesColl := AList.update (RecordID entry) entry (entriesColl db)\<rparr>))"

definition GetAllEntries :: "FirestoreDB \<Rightarrow> (db_error + Entry list) \<times> FirestoreDB" where
  "GetAllEntries db =
     (if callFails db then (Inl Unavailable, logCall ListEntries db)
      else (Inr (map snd (entriesColl db)), logCall ListEntries db))"

definition GetEntriesSince :: "time \<Rightarrow> FirestoreDB \<Rightarrow> (db_error + Entry list) \<times> FirestoreDB" where
  "GetEntriesSince since db =
     (if callFails db then (Inl Unavailable, logCall (QueryEntriesSince since) db)
      else (Inr (filter (\<lambda>e. CreatedAt e > since) (map snd (entriesColl db))),
            logCall (QueryEntriesSince since) db))"


definition GetUser :: "string \<Rightarrow> FirestoreDB \<Rightarrow> (db_error + User) \<times> FirestoreDB" where
  "GetUser userID db =
     (if callFails db then (Inl Unavailable, logCall (GetUserDoc userID) db)
      else case map_of (usersColl db) userID of
             None \<Rightarrow> (Inl NotFound, logCall (GetUserDoc userID) db)
           | Some user \<Rightarrow> (Inr user, logCall (GetUserDoc userID) db))"


definition dbUpdateUser :: "User \<Rightarrow> FirestoreDB \<Rightarrow> db_error option \<times> FirestoreDB" where
  "dbUpdateUser user db =
     (if callFails db then (Some Unavailable, logCall (SetUser user) db)
      else (None, (logCall (SetUser user) db)
              \<lparr>usersColl := AList.update (UserID user) user (usersColl db)\<rparr>))"


definition StorePasswordHash ::
  "time \<Rightarrow> string \<Rightarrow> string \<Rightarrow> FirestoreDB \<Rightarrow> db_error option \<times> FirestoreDB" where
  "StorePasswordHash now userID passwordHash db =
     (if callFails db then (Some Unavailable, logCall (SetPassword userID passwordHash now) db)
      else (None, (logCall (SetPassword userID passwordHash now) db)
              \<lparr>passwordsColl :=
                 AList.update userID (passwordHash, now) (passwordsColl db)\<rparr>))"

section \<open>HTTP plumbing\<close>

text \<open>
  What a handler reads of the request: the method, the user the authentication middleware
  put into the context, the \<^verbatim>\<open>since\<close> query parameter (empty when absent) and the
  decoded JSON body (\<open>None\<close> when decoding fails). A handler answers with
  \<^verbatim>\<open>writeError\<close> (message and status) or with a JSON body.
\<close>

record 'b Request =
  Method :: string
  CtxUser :: "User option"
  Since :: string
  Body :: "'b option"

datatype 'a Response = WriteError string nat | WriteJSON 'a

section \<open>Sync handlers (handlers/sync.go)\<close>

record SyncPushRequest =
  ReqEntries :: "Entry list"

record SyncPushResponse =
  Success :: bool
  Accepted :: nat
  Rejected :: nat
  RejectedIDs :: "string list"
  Message :: string

record SyncPullResponse =
  Entries :: "Entry list"
  Count :: nat

section \<open>Role visibility filter (handlers/sync.go)\<close>

text \<open>The search loop \<^verbatim>\<open>for _, x := range xs { if x == id { found = true; break } }\<close>.\<close>

fun foundIn :: "string list \<Rightarrow> string \<Rightarrow> bool" where
  "foundIn [] ident = False"
| "foundIn (x # xs) ident = (if x = ident then True else foundIn xs ident)"

fun filterManaged :: "string list \<Rightarrow> Entry list \<Rightarrow> Entry list \<Rightarrow> Entry list" where
  "filterManaged operators [] filtered = filtered"
| "filterManaged operators (entry # rest) filtered =
     filterManaged operators rest
       (if foundIn operators (LoggingUserID entry) then filtered @ [entry] else filtered)"

fun filterOwn :: "string \<Rightarrow> Entry list \<Rightarrow> Entry list \<Rightarrow> Entry list" where
  "filterOwn uid [] filtered = filtered"
| "filterOwn uid (entry # rest) filtered =
     filterOwn uid rest
       (if LoggingUserID entry = uid then filtered @ [entry] else filtered)"

definition filterEntriesByRole :: "Entry list \<Rightarrow> User \<Rightarrow> Entry list" where
  "filterEntriesByRole entries user =
     (if Role user = RoleAdmin then entries
      else if Role user = RoleSupervisor then
        (if length (ManagedOperators user) = 0 then []
         else filterManaged (ManagedOperators user) entries [])
      else if Role user = RoleGateOperator then filterOwn (UserID user) entries []
      else [])"

text \<open>The role table of the specification, written from its words.\<close>

definition visible_entries :: "Entry list \<Rightarrow> User \<Rightarrow> Entry list" where
  "visible_entries all_entries requester =
     (if Role requester = RoleAdmin then all_entries
      else if Role requester = RoleSupervisor then
        (if ManagedOperators requester = [] then []
         else filter (\<lambda>e. LoggingUserID e \<in> set (ManagedOperators requester)) all_entries)
      else if Role requester = RoleGateOperator then
        filter (\<lambda>e. LoggingUserID e = UserID requester) all_entries
      else [])"

text \<open>The loop of \<open>Push\<close>; its state is the two counters, the rejected ids and the store.\<close>

fun pushLoop ::
  "User \<Rightarrow> Entry list \<Rightarrow> nat \<times> nat \<times> string list \<times> FirestoreDB
     \<Rightarrow> nat \<times> nat \<times> string list \<times> FirestoreDB" where
  "pushLoop user [] st = st"
| "pushLoop user (entry # rest) (accepted, rejected, rejectedIDs, db) =
     (if LoggingUserID entry \<noteq> UserID user then
        pushLoop user rest (accepted, rejected + 1, rejectedIDs @ [RecordID entry], db)
      else if Role user = RoleGateOperator
              \<and> \<not> foundIn (AllowedCheckpoints user) (CheckpointID entry) then
        pushLoop user rest (accepted, rejected + 1, rejectedIDs @ [RecordID entry], db)
      else
        (case CreateEntry entry db of
           (Some err, db') \<Rightarrow>
             pushLoop user rest (accepted, rejected + 1, rejectedIDs @ [RecordID entry], db')
         | (None, db') \<Rightarrow>
             pushLoop user rest (accepted + 1, rejected, rejectedIDs, db')))"

definition Push ::
  "SyncPushRequest Request \<Rightarrow> FirestoreDB \<Rightarrow> SyncPushResponse Response \<times> FirestoreDB" where
  "Push r db =
     (if Method r \<noteq> ''POST'' then (WriteError ''Method not allowed'' 405, db)
      else case CtxUser r of
        None \<Rightarrow> (WriteError ''User not found in context'' 401, db)
      | Some user \<Rightarrow>
         (case Body r of
            None \<Rightarrow> (WriteError ''Invalid request body'' 400, db)
          | Some req \<Rightarrow>
             (case pushLoop user (ReqEntries req) (0, 0, [], db) of
                (accepted, rejected, rejectedIDs, db') \<Rightarrow>
                  (WriteJSON \<lparr>Success = (rejected = 0), Accepted = accepted,
                     Rejected = rejected, RejectedIDs = rejectedIDs,
                     Message = ''Sync completed''\<rparr>, db'))))"

text \<open>
  \<^verbatim>\<open>time.Parse(time.RFC3339, _)\<close> is a library function: it is a parameter of \<open>Pull\<close>,
  \<open>None\<close> standing for a parse error.
\<close>

definition pullRespond ::
  "User \<Rightarrow> (db_error + Entry list) \<times> FirestoreDB
     \<Rightarrow> SyncPullResponse Response \<times> FirestoreDB" where
  "pullRespond user res =
     (case res of
        (Inl err, db') \<Rightarrow> (WriteError ''Failed to retrieve entries'' 500, db')
      | (Inr entries, db') \<Rightarrow>
          (let filteredEntries = filterEntriesByRole entries user
           in (WriteJSON \<lparr>Entries = filteredEntries, Count = length filteredEntries\<rparr>, db')))"

definition Pull ::
  "(string \<Rightarrow> time option) \<Rightarrow> 'b Request \<Rightarrow> FirestoreDB
     \<Rightarrow> SyncPullResponse Response \<times> FirestoreDB" where
  "Pull parseRFC3339 r db =
     (if Method r \<noteq> ''GET'' then (WriteError ''Method not allowed'' 405, db)
      else case CtxUser r of
        None \<Rightarrow> (WriteError ''User not found in context'' 401, db)
      | Some user \<Rightarrow>
         (if Since r \<noteq> [] then
            (case parseRFC3339 (Since r) of
               None \<Rightarrow> (WriteError ''Invalid since parameter format. Use RFC3339'' 400, db)
             | Some sinceTime \<Rightarrow> pullRespond user (GetEntriesSince sinceTime db))
          else pullRespond user (GetAllEntries db)))"

text \<open>The write authorization of the specification, written from its words.\<close>

definition write_authorized :: "User \<Rightarrow> Entry \<Rightarrow> bool" where
  "write_authorized requester e =
     (LoggingUserID e = UserID requester
      \<and> (Role requester \<noteq> RoleGateOperator
           \<or> CheckpointID e \<in> set (AllowedCheckpoints requester)))"

text \<open>Stand-ins used only to evaluate examples: a parser that knows two instants.\<close>

definition sampleParse :: "string \<Rightarrow> time option" where
  "sampleParse s =
     (if s = ''0001-01-01T00:00:05Z'' then Some 5
      else if s = ''0001-01-01T00:00:20Z'' then Some 20
      else None)"

definition emptyDB :: FirestoreDB where
  "emptyDB = \<lparr>entriesColl = [], usersColl = [], passwordsColl = [], calls = [], outage = []\<rparr>"

section \<open>Role gate (middleware/auth.go)\<close>

definition RequireRole ::
  "UserRole list \<Rightarrow> ('b Request \<Rightarrow> FirestoreDB \<Rightarrow> 'a Response \<times> FirestoreDB)
     \<Rightarrow> 'b Request \<Rightarrow> FirestoreDB \<Rightarrow> 'a Response \<times> FirestoreDB" where
  "RequireRole allowedRoles next r db =
     (case CtxUser r of
        None \<Rightarrow> (WriteError ''User not found in context'' 401, db)
      | Some user \<Rightarrow>
          if foundIn allowedRoles (Role user) then next r db
          else (WriteError ''Insufficient permissions'' 403, db))"

section \<open>Password reset (handlers/supervisor.go)\<close>

record ResetPasswordRequest =
  TargetUserID :: string
  NewPassword :: string

definition ResetPassword ::
  "bcrypt_gen \<Rightarrow> time \<Rightarrow> ResetPasswordRequest Request \<Rightarrow> FirestoreDB
     \<Rightarrow> string Response \<times> FirestoreDB" where
  "ResetPassword bcrypt now r db =
     (if Method r \<noteq> ''POST'' then (WriteError ''Method not allowed'' 405, db)
      else case CtxUser r of
        None \<Rightarrow> (WriteError ''User not found in context'' 401, db)
      | Some supervisor \<Rightarrow>
         (case Body r of
            None \<Rightarrow> (WriteError ''Invalid request body'' 400, db)
          | Some req \<Rightarrow>
             if TargetUserID req = [] \<or> NewPassword req = [] then
               (WriteError ''User ID and new password are required'' 400, db)
             else
               (case ValidatePasswordStrength (NewPassword req) of
                  Some err \<Rightarrow> (WriteError (errorText err) 400, db)
                | None \<Rightarrow>
                   (case GetUser (TargetUserID req) db of
                      (Inl err, db1) \<Rightarrow> (WriteError ''User not found'' 404, db1)
                    | (Inr targetUser, db1) \<Rightarrow>
                       if Role supervisor = RoleSupervisor
                          \<and> \<not> foundIn (ManagedOperators supervisor) (TargetUserID req) then
                         (WriteError ''You can only reset passwords for operators you manage''
                            403, db1)
                       else
                         (case HashPassword bcrypt (NewPassword req) of
                            Inl err \<Rightarrow> (WriteError ''Failed to hash password'' 500, db1)
                          | Inr passwordHash \<Rightarrow>
                             (case StorePasswordHash now (TargetUserID req) passwordHash db1 of
                                (Some err, db2) \<Rightarrow>
                                  (WriteError ''Failed to update password'' 500, db2)
                              | (None, db2) \<Rightarrow>
                                  (WriteJSON ''Password reset successfully'', db2)))))))"

text \<open>The route as \<^verbatim>\<open>main.go\<close> mounts it: behind the Supervisor-or-Admin role gate.\<close>

definition resetPasswordRoute ::
  "bcrypt_gen \<Rightarrow> time \<Rightarrow> ResetPasswordRequest Request \<Rightarrow> FirestoreDB
     \<Rightarrow> string Response \<times> FirestoreDB" where
  "resetPasswordRoute bcrypt now =
     RequireRole [RoleSupervisor, RoleAdmin] (ResetPassword bcrypt now)"

section \<open>User management (handlers/admin.go)\<close>


text \<open>
  In \<open>UpdateUserRequest\<close> the checkpoint list is compared with nil, so an absent list
  (\<open>None\<close>) differs from an empty one.
\<close>

record UpdateUserRequest =
  UpdUserID :: string
  UpdRole :: UserRole
  UpdAllowedCheckpoints :: "string list option"
  UpdSupervisorID :: string


text \<open>
  The block "add the operator to the supervisor's list if not already there", which
  \<open>CreateUser\<close> and \<open>UpdateUser\<close> both contain: a supervisor that cannot be fetched is
  skipped and the result of the write is ignored.
\<close>

definition addToSupervisor :: "string \<Rightarrow> string \<Rightarrow> FirestoreDB \<Rightarrow> FirestoreDB" where
  "addToSupervisor supervisorID userID db =
     (case GetUser supervisorID db of
        (Inl err, db1) \<Rightarrow> db1
      | (Inr supervisor, db1) \<Rightarrow>
          if foundIn (ManagedOperators supervisor) userID then db1
          else snd (dbUpdateUser
                 (supervisor\<lparr>ManagedOperators := ManagedOperators supervisor @ [userID]\<rparr>)
                 db1))"

text \<open>The loop that copies a managed-operators list without one id.\<close>

fun withoutID :: "string list \<Rightarrow> string \<Rightarrow> string list \<Rightarrow> string list" where
  "withoutID [] userID newList = newList"
| "withoutID (opID # rest) userID newList =
     withoutID rest userID (if opID \<noteq> userID then newList @ [opID] else newList)"

text \<open>
  The block "remove the operator from the supervisor's list", which \<open>UpdateUser\<close> and
  \<open>DeleteUser\<close> both contain.
\<close>

definition removeFromSupervisor :: "string \<Rightarrow> string \<Rightarrow> FirestoreDB \<Rightarrow> FirestoreDB" where
  "removeFromSupervisor supervisorID userID db =
     (case GetUser supervisorID db of
        (Inl err, db1) \<Rightarrow> db1
      | (Inr supervisor, db1) \<Rightarrow>
          snd (dbUpdateUser
                 (supervisor\<lparr>ManagedOperators :=
                    withoutID (ManagedOperators supervisor) userID []\<rparr>)
                 db1))"


definition applyUpdate :: "UpdateUserRequest \<Rightarrow> User \<Rightarrow> User" where
  "applyUpdate req user =
     (let user1 = (if UpdRole req \<noteq> [] then user\<lparr>Role := UpdRole req\<rparr> else user);
          user2 = (case UpdAllowedCheckpoints req of
                     Some cps \<Rightarrow> user1\<lparr>AllowedCheckpoints := cps\<rparr>
                   | None \<Rightarrow> user1);
          user3 = (if UpdSupervisorID req \<noteq> [] then
                     user2\<lparr>SupervisorID := UpdSupervisorID req\<rparr>
                   else user2)
      in user3)"

definition UpdateUser ::
  "UpdateUserRequest Request \<Rightarrow> FirestoreDB \<Rightarrow> User Response \<times> FirestoreDB" where
  "UpdateUser r db =
     (if Method r \<noteq> ''PUT'' then (WriteError ''Method not allowed'' 405, db)
      else case CtxUser r of
        None \<Rightarrow> (WriteError ''User not found in context'' 401, db)
      | Some adminUser \<Rightarrow>
         (case Body r of
            None \<Rightarrow> (WriteError ''Invalid request body'' 400, db)
          | Some req \<Rightarrow>
             if UpdUserID req = [] then (WriteError ''User ID is required'' 400, db)
             else
               (case GetUser (UpdUserID req) db of
                  (Inl err, db1) \<Rightarrow> (WriteError ''User not found'' 404, db1)
                | (Inr user0, db1) \<Rightarrow>
                   (let oldSupervisorID = SupervisorID user0;
                        user = applyUpdate req user0
                    in case dbUpdateUser user db1 of
                         (Some err, db2) \<Rightarrow> (WriteError ''Failed to update user'' 500, db2)
                       | (None, db2) \<Rightarrow>
                          (WriteJSON user,
                           if oldSupervisorID \<noteq> UpdSupervisorID req then
                             (let db3 = (if oldSupervisorID \<noteq> [] then
                                           removeFromSupervisor oldSupervisorID
                                             (UpdUserID req) db2
                                         else db2)
                              in if UpdSupervisorID req \<noteq> [] then
                                   addToSupervisor (UpdSupervisorID req) (UpdUserID req) db3
                                 else db3)
                           else db2)))))"


section \<open>Consistency of the supervisor links\<close>





section \<open>Sample data for evaluated examples\<close>

text \<open>The seeded users of \<^verbatim>\<open>cmd/seed\<close>, after the supervisor link has been written.\<close>

definition adminUser :: User where
  "adminUser = \<lparr>UserID = ''user-admin'', Username = ''admin'', Role = RoleAdmin,
     AllowedCheckpoints = [], SupervisorID = [], ManagedOperators = [], LastLogin = 100\<rparr>"

definition supervisorJohn :: User where
  "supervisorJohn = \<lparr>UserID = ''user-supervisor-john'', Username = ''supervisor_john'',
     Role = RoleSupervisor, AllowedCheckpoints = [''CP-EAST-MAIN'', ''CP-NORTH-01''],
     SupervisorID = [], ManagedOperators = [''user-op-east''], LastLogin = 100\<rparr>"

definition opEast :: User where
  "opEast = \<lparr>UserID = ''user-op-east'', Username = ''op_east'', Role = RoleGateOperator,
     AllowedCheckpoints = [''CP-EAST-MAIN''], SupervisorID = ''user-supervisor-john'',
     ManagedOperators = [], LastLogin = 100\<rparr>"

definition opWest :: User where
  "opWest = \<lparr>UserID = ''user-op-west'', Username = ''op_west'', Role = RoleGateOperator,
     AllowedCheckpoints = [''CP-WEST-GATE''], SupervisorID = [],
     ManagedOperators = [], LastLogin = 100\<rparr>"

definition seededDB :: FirestoreDB where
  "seededDB = \<lparr>entriesColl = [],
     usersColl = [(''user-admin'', adminUser), (''user-supervisor-john'', supervisorJohn),
                  (''user-op-east'', opEast), (''user-op-west'', opWest)],
     passwordsColl = [], calls = [], outage = []\<rparr>"

definition sampleEntry :: "string \<Rightarrow> string \<Rightarrow> string \<Rightarrow> time \<Rightarrow> time \<Rightarrow> Entry" where
  "sampleEntry recordID checkpointID userID createdAt updatedAt =
     \<lparr>RecordID = recordID, CheckpointID = checkpointID, EntryType = ''CAR'',
      LoggingUserID = userID, ClientTS = 1, UpdatedAt = updatedAt, CreatedAt = createdAt,
      Status = ''ACTIVE'', Payload = []\<rparr>"

definition pushRequest :: "User \<Rightarrow> Entry list \<Rightarrow> SyncPushRequest Request" where
  "pushRequest user es =
     \<lparr>Method = ''POST'', CtxUser = Some user, Since = [],
      Body = Some \<lparr>ReqEntries = es\<rparr>\<rparr>"

definition pullRequest :: "User \<Rightarrow> string \<Rightarrow> unit Request" where
  "pullRequest user since = \<lparr>Method = ''GET'', CtxUser = Some user, Since = since, Body = None\<rparr>"

section \<open>Properties\<close>

lemma foundIn_set: "foundIn xs ident = (ident \<in> set xs)"
  by (induction xs) auto

lemma filterManaged_filter:
  "filterManaged ops es acc = acc @ filter (\<lambda>e. LoggingUserID e \<in> set ops) es"
  by (induction es arbitrary: acc) (simp_all add: foundIn_set)

lemma filterOwn_filter:
  "filterOwn uid es acc = acc @ filter (\<lambda>e. LoggingUserID e = uid) es"
  by (induction es arbitrary: acc) simp_all

text \<open>
  C1. For every user and every list of entries, \<open>filterEntriesByRole\<close> returns exactly what
  the role table prescribes: everything for an Admin; for a Supervisor the entries logged by
  one of the managed operators (nothing when there are none); for a GateOperator the entries
  logged by the requester; nothing for any other role.
\<close>

theorem filterEntriesByRole_role_table:
  "filterEntriesByRole entries user = visible_entries entries user"
  by (simp add: filterEntriesByRole_def visible_entries_def filterManaged_filter
      filterOwn_filter)

subsection \<open>The push loop\<close>

lemma pushLoop_step:
  "pushLoop user (e # es) (a, r, ids, db) =
     (if \<not> write_authorized user e then
        pushLoop user es (a, r + 1, ids @ [RecordID e], db)
      else if callFails db then
        pushLoop user es (a, r + 1, ids @ [RecordID e], logCall (SetEntry e) db)
      else
        pushLoop user es (a + 1, r, ids,
          (logCall (SetEntry e) db)
            \<lparr>entriesColl := AList.update (RecordID e) e (entriesColl db)\<rparr>))"
  by (simp add: write_authorized_def foundIn_set CreateEntry_def)

lemma pushLoop_calls:
  "pushLoop user es (a, r, ids, db) = (a', r', ids', db') \<Longrightarrow>
     calls db' = calls db @ map SetEntry (filter (write_authorized user) es)"
  by (induction es arbitrary: a r ids db)
     (auto simp: pushLoop_step logCall_def simp del: pushLoop.simps(2) split: if_splits)

lemma pushLoop_counts:
  "pushLoop user es (a, r, ids, db) = (a', r', ids', db') \<Longrightarrow>
     a' + r' = a + r + length es \<and> r' + length ids = r + length ids'"
  by (induction es arbitrary: a r ids db)
     (force simp: pushLoop_step simp del: pushLoop.simps(2) split: if_splits)+

lemma pushLoop_rejected:
  "pushLoop user es (a, r, ids, db) = (a', r', ids', db') \<Longrightarrow>
     set ids \<subseteq> set ids'
     \<and> (\<forall>e \<in> set es. \<not> write_authorized user e \<longrightarrow> RecordID e \<in> set ids')"
  by (induction es arbitrary: a r ids db)
     (force simp: pushLoop_step simp del: pushLoop.simps(2) split: if_splits)+

lemma pushLoop_store_of_authorized:
  "snd (snd (snd (pushLoop user es (a, r, ids, db))))
     = snd (snd (snd (pushLoop user (filter (write_authorized user) es) (a2, r2, ids2, db))))"
  by (induction es arbitrary: a r ids db a2 r2 ids2)
     (simp_all add: pushLoop_step del: pushLoop.simps(2))

lemma pushLoop_store_up:
  "outage db = [] \<Longrightarrow> pushLoop user es (a, r, ids, db) = (a', r', ids', db') \<Longrightarrow>
     a' = a + length (filter (write_authorized user) es)
     \<and> entriesColl db'
         = fold (\<lambda>e. AList.update (RecordID e) e) (filter (write_authorized user) es)
             (entriesColl db)"
proof (induction es arbitrary: a r ids db)
  case Nil
  then show ?case by simp
next
  case (Cons e es)
  have up: "\<not> callFails db"
    using Cons.prems(1) by (simp add: callFails_def)
  show ?case
  proof (cases "write_authorized user e")
    case True
    let ?db1 = "(logCall (SetEntry e) db)
                  \<lparr>entriesColl := AList.update (RecordID e) e (entriesColl db)\<rparr>"
    have run: "pushLoop user es (a + 1, r, ids, ?db1) = (a', r', ids', db')"
      using Cons.prems(2) True up by (simp add: pushLoop_step del: pushLoop.simps(2))
    have "outage ?db1 = []"
      using Cons.prems(1) by (simp add: logCall_def)
    from Cons.IH [OF this run] show ?thesis
      using True by simp
  next
    case False
    have run: "pushLoop user es (a, r + 1, ids @ [RecordID e], db) = (a', r', ids', db')"
      using Cons.prems(2) False by (simp add: pushLoop_step del: pushLoop.simps(2))
    from Cons.IH [OF Cons.prems(1) run] show ?thesis
      using False by simp
  qed
qed

lemma Push_unfold:
  "Method r = ''POST'' \<Longrightarrow> CtxUser r = Some user \<Longrightarrow> Body r = Some req \<Longrightarrow>
     pushLoop user (ReqEntries req) (0, 0, [], db) = (a', r', ids', db') \<Longrightarrow>
     Push r db = (WriteJSON \<lparr>Success = (r' = 0), Accepted = a', Rejected = r',
                    RejectedIDs = ids', Message = ''Sync completed''\<rparr>, db')"
  by (simp add: Push_def)

text \<open>
  C2. For a push by any requester, the store writes attempted are exactly the entries that
  pass write authorization (logged by the requester and, for a GateOperator, for one of the
  allowed checkpoints), in submission order; every entry failing a check has its record id
  among the rejected ids, and the store ends as if the failing entries had not been sent.
\<close>

theorem Push_write_authorization:
  assumes "Method r = ''POST''" and "CtxUser r = Some user" and "Body r = Some req"
  shows "\<exists>resp db'. Push r db = (WriteJSON resp, db')
     \<and> calls db' = calls db @ map SetEntry (filter (write_authorized user) (ReqEntries req))
     \<and> (\<forall>e \<in> set (ReqEntries req).
           \<not> write_authorized user e \<longrightarrow> RecordID e \<in> set (RejectedIDs resp))
     \<and> db' = snd (Push (r\<lparr>Body := Some \<lparr>ReqEntries =
                      filter (write_authorized user) (ReqEntries req)\<rparr>\<rparr>) db)"
proof -
  obtain a' r' ids' db' where
    run: "pushLoop user (ReqEntries req) (0, 0, [], db) = (a', r', ids', db')"
    by (cases "pushLoop user (ReqEntries req) (0, 0, [], db)") auto
  let ?auth = "filter (write_authorized user) (ReqEntries req)"
  obtain a2 r2 ids2 db2 where
    run2: "pushLoop user ?auth (0, 0, [], db) = (a2, r2, ids2, db2)"
    by (cases "pushLoop user ?auth (0, 0, [], db)") auto
  have same: "db' = db2"
    using pushLoop_store_of_authorized [of user "ReqEntries req" 0 0 "[]" db 0 0 "[]"]
    by (simp add: run run2)
  have second: "snd (Push (r\<lparr>Body := Some \<lparr>ReqEntries = ?auth\<rparr>\<rparr>) db) = db2"
    using assms run2 by (simp add: Push_def)
  show ?thesis
    using Push_unfold [OF assms run] pushLoop_calls [OF run] pushLoop_rejected [OF run]
      same second
    by simp
qed

theorem Push_write_authorization_witness:
  "fst (Push (pushRequest opEast
          [sampleEntry ''E1'' ''CP-EAST-MAIN'' ''user-op-east'' 0 0,
           sampleEntry ''E2'' ''CP-WEST-GATE'' ''user-op-east'' 0 0,
           sampleEntry ''E3'' ''CP-EAST-MAIN'' ''user-op-west'' 0 0]) emptyDB)
     = WriteJSON \<lparr>Success = False, Accepted = 1, Rejected = 2,
         RejectedIDs = [''E2'', ''E3''], Message = ''Sync completed''\<rparr>
   \<and> (\<exists>resp db'.
         Push (pushRequest opEast
          [sampleEntry ''E1'' ''CP-EAST-MAIN'' ''user-op-east'' 0 0,
           sampleEntry ''E2'' ''CP-WEST-GATE'' ''user-op-east'' 0 0,
           sampleEntry ''E3'' ''CP-EAST-MAIN'' ''user-op-west'' 0 0]) emptyDB
           = (WriteJSON resp, db')
         \<and> calls db' = [SetEntry (sampleEntry ''E1'' ''CP-EAST-MAIN'' ''user-op-east'' 0 0)]
         \<and> ''E2'' \<in> set (RejectedIDs resp) \<and> ''E3'' \<in> set (RejectedIDs resp))"
proof -
  let ?es = "[sampleEntry ''E1'' ''CP-EAST-MAIN'' ''user-op-east'' 0 0,
           sampleEntry ''E2'' ''CP-WEST-GATE'' ''user-op-east'' 0 0,
           sampleEntry ''E3'' ''CP-EAST-MAIN'' ''user-op-west'' 0 0]"
  have m: "Method (pushRequest opEast ?es) = ''POST''"
    and u: "CtxUser (pushRequest opEast ?es) = Some opEast"
    and b: "Body (pushRequest opEast ?es) = Some \<lparr>ReqEntries = ?es\<rparr>"
    by (simp_all add: pushRequest_def)
  have auth: "filter (write_authorized opEast) ?es
                = [sampleEntry ''E1'' ''CP-EAST-MAIN'' ''user-op-east'' 0 0]"
    by (simp add: write_authorized_def opEast_def sampleEntry_def RoleGateOperator_def)
  have ev: "fst (Push (pushRequest opEast ?es) emptyDB)
     = WriteJSON \<lparr>Success = False, Accepted = 1, Rejected = 2,
         RejectedIDs = [''E2'', ''E3''], Message = ''Sync completed''\<rparr>"
    by code_simp
  from Push_write_authorization [OF m u b, of emptyDB] obtain resp db' where
    p: "Push (pushRequest opEast ?es) emptyDB = (WriteJSON resp, db')"
    and c: "calls db' = calls emptyDB @ map SetEntry (filter (write_authorized opEast) ?es)"
    and rj: "\<forall>e \<in> set ?es. \<not> write_authorized opEast e \<longrightarrow> RecordID e \<in> set (RejectedIDs resp)"
    by auto
  have r2: "''E2'' \<in> set (RejectedIDs resp)"
    using rj by (simp add: write_authorized_def opEast_def sampleEntry_def RoleGateOperator_def)
  have r3: "''E3'' \<in> set (RejectedIDs resp)"
    using rj by (simp add: write_authorized_def opEast_def sampleEntry_def RoleGateOperator_def)
  have c': "calls db' = [SetEntry (sampleEntry ''E1'' ''CP-EAST-MAIN'' ''user-op-east'' 0 0)]"
    using c auth by (simp add: emptyDB_def)
  show ?thesis using ev p c' r2 r3 by blast
qed

text \<open>
  C5. For every push batch the two counters add up to the number of submitted entries, the
  rejected counter is the length of the rejected ids, and success is reported exactly when
  nothing was rejected. The loop runs through the whole batch: every entry that passes
  authorization is handed to the store whatever happened to the entries around it, and
  when the store is up each of them is accepted and upserted.
\<close>

theorem Push_partial_acceptance:
  assumes "Method r = ''POST''" and "CtxUser r = Some user" and "Body r = Some req"
  shows "\<exists>resp db'. Push r db = (WriteJSON resp, db')
     \<and> Accepted resp + Rejected resp = length (ReqEntries req)
     \<and> Rejected resp = length (RejectedIDs resp)
     \<and> Success resp = (Rejected resp = 0)
     \<and> calls db' = calls db @ map SetEntry (filter (write_authorized user) (ReqEntries req))
     \<and> (outage db = [] \<longrightarrow>
           Accepted resp = length (filter (write_authorized user) (ReqEntries req))
           \<and> entriesColl db'
               = fold (\<lambda>e. AList.update (RecordID e) e)
                   (filter (write_authorized user) (ReqEntries req)) (entriesColl db))"
proof -
  obtain a' r' ids' db' where
    run: "pushLoop user (ReqEntries req) (0, 0, [], db) = (a', r', ids', db')"
    by (cases "pushLoop user (ReqEntries req) (0, 0, [], db)") auto
  have up: "outage db = [] \<longrightarrow>
      a' = length (filter (write_authorized user) (ReqEntries req))
      \<and> entriesColl db'
          = fold (\<lambda>e. AList.update (RecordID e) e)
              (filter (write_authorized user) (ReqEntries req)) (entriesColl db)"
    using pushLoop_store_up [OF _ run] by simp
  show ?thesis
    using Push_unfold [OF assms run] pushLoop_counts [OF run] pushLoop_calls [OF run] up
    by simp
qed

theorem Push_partial_acceptance_witness:
  "Push (pushRequest opEast
      [sampleEntry ''E3'' ''CP-EAST-MAIN'' ''user-op-west'' 0 0,
       sampleEntry ''E1'' ''CP-EAST-MAIN'' ''user-op-east'' 0 0,
       sampleEntry ''E2'' ''CP-WEST-GATE'' ''user-op-east'' 0 0]) emptyDB
     = (WriteJSON \<lparr>Success = False, Accepted = 1, Rejected = 2,
          RejectedIDs = [''E3'', ''E2''], Message = ''Sync completed''\<rparr>,
        emptyDB\<lparr>entriesColl :=
                   [(''E1'', sampleEntry ''E1'' ''CP-EAST-MAIN'' ''user-op-east'' 0 0)],
                 calls :=
                   [SetEntry (sampleEntry ''E1'' ''CP-EAST-MAIN'' ''user-op-east'' 0 0)]\<rparr>)
   \<and> (\<exists>resp db'.
         Push (pushRequest opEast
           [sampleEntry ''E3'' ''CP-EAST-MAIN'' ''user-op-west'' 0 0,
            sampleEntry ''E1'' ''CP-EAST-MAIN'' ''user-op-east'' 0 0,
            sampleEntry ''E2'' ''CP-WEST-GATE'' ''user-op-east'' 0 0]) emptyDB
           = (WriteJSON resp, db')
         \<and> Accepted resp + Rejected resp = 3
         \<and> Rejected resp = length (RejectedIDs resp)
         \<and> Success resp = (Rejected resp = 0))"
proof -
  let ?es = "[sampleEntry ''E3'' ''CP-EAST-MAIN'' ''user-op-west'' 0 0,
       sampleEntry ''E1'' ''CP-EAST-MAIN'' ''user-op-east'' 0 0,
       sampleEntry ''E2'' ''CP-WEST-GATE'' ''user-op-east'' 0 0]"
  have m: "Method (pushRequest opEast ?es) = ''POST''"
    and u: "CtxUser (pushRequest opEast ?es) = Some opEast"
    and b: "Body (pushRequest opEast ?es) = Some \<lparr>ReqEntries = ?es\<rparr>"
    by (simp_all add: pushRequest_def)
  have ev: "Push (pushRequest opEast ?es) emptyDB
     = (WriteJSON \<lparr>Success = False, Accepted = 1, Rejected = 2,
          RejectedIDs = [''E3'', ''E2''], Message = ''Sync completed''\<rparr>,
        emptyDB\<lparr>entriesColl :=
                   [(''E1'', sampleEntry ''E1'' ''CP-EAST-MAIN'' ''user-op-east'' 0 0)],
                 calls :=
                   [SetEntry (sampleEntry ''E1'' ''CP-EAST-MAIN'' ''user-op-east'' 0 0)]\<rparr>)"
    by code_simp
  from Push_partial_acceptance [OF m u b, of emptyDB] obtain resp db' where
    "Push (pushRequest opEast ?es) emptyDB = (WriteJSON resp, db')"
    "Accepted resp + Rejected resp = length ?es"
    "Rejected resp = length (RejectedIDs resp)"
    "Success resp = (Rejected resp = 0)"
    by auto
  then show ?thesis using ev by auto
qed

lemma key_once:
  "k \<in> fst ` set xs \<Longrightarrow> distinct (map fst xs) \<Longrightarrow>
     length (filter (\<lambda>d. fst d = k) xs) = 1"
proof (induction xs)
  case Nil
  then show ?case by simp
next
  case (Cons x xs)
  show ?case
  proof (cases "fst x = k")
    case True
    then have "k \<notin> fst ` set xs" using Cons.prems(2) by auto
    then have "filter (\<lambda>d. fst d = k) xs = []"
      by (auto simp: filter_empty_conv)
    then show ?thesis using True by simp
  next
    case False
    then show ?thesis using Cons by auto
  qed
qed

text \<open>
  C7. When a push of one entry has been accepted, pushing the same entry again leaves the
  entries collection as it was, whether the store takes the second write or fails it: the
  document under that record id is the entry, the ids stay distinct, and no document is
  added.
\<close>

theorem Push_same_entry_twice:
  assumes "Method r = ''POST''" and "CtxUser r = Some user"
    and "Body r = Some \<lparr>ReqEntries = [e]\<rparr>"
    and "Push r db = (WriteJSON resp1, db1)" and "Accepted resp1 = 1"
    and "distinct (map fst (entriesColl db))"
  shows "entriesColl (snd (Push r db1)) = entriesColl db1
     \<and> map_of (entriesColl db1) (RecordID e) = Some e
     \<and> distinct (map fst (entriesColl db1))
     \<and> length (filter (\<lambda>d. fst d = RecordID e) (entriesColl (snd (Push r db1)))) = 1"
proof -
  have auth: "write_authorized user e" and up: "\<not> callFails db"
    and db1: "db1 = (logCall (SetEntry e) db)
                \<lparr>entriesColl := AList.update (RecordID e) e (entriesColl db)\<rparr>"
    using assms(1-5)
    by (auto simp: Push_def pushLoop_step simp del: pushLoop.simps(2) split: if_splits)
  have coll: "entriesColl db1 = AList.update (RecordID e) e (entriesColl db)"
    by (simp add: db1)
  have again: "entriesColl (snd (Push r db1)) = entriesColl db1"
    using assms(1-3) auth
    by (simp add: Push_def pushLoop_step coll logCall_def del: pushLoop.simps(2))
  have dist: "distinct (map fst (entriesColl db1))"
    using assms(6) by (simp add: coll distinct_update)
  have look: "map_of (entriesColl db1) (RecordID e) = Some e"
    by (simp add: coll update_conv')
  have "RecordID e \<in> fst ` set (entriesColl db1)"
    by (simp add: coll dom_update)
  then have one: "length (filter (\<lambda>d. fst d = RecordID e) (entriesColl db1)) = 1"
    using dist by (rule key_once)
  show ?thesis using again dist look one by simp
qed

theorem Push_same_entry_twice_witness:
  "Push (pushRequest opEast [sampleEntry ''E1'' ''CP-EAST-MAIN'' ''user-op-east'' 3 3]) emptyDB
     = (WriteJSON \<lparr>Success = True, Accepted = 1, Rejected = 0, RejectedIDs = [],
          Message = ''Sync completed''\<rparr>,
        emptyDB\<lparr>entriesColl :=
                   [(''E1'', sampleEntry ''E1'' ''CP-EAST-MAIN'' ''user-op-east'' 3 3)],
                 calls :=
                   [SetEntry (sampleEntry ''E1'' ''CP-EAST-MAIN'' ''user-op-east'' 3 3)]\<rparr>)
   \<and> entriesColl (snd (Push
         (pushRequest opEast [sampleEntry ''E1'' ''CP-EAST-MAIN'' ''user-op-east'' 3 3])
         (emptyDB\<lparr>entriesColl :=
                   [(''E1'', sampleEntry ''E1'' ''CP-EAST-MAIN'' ''user-op-east'' 3 3)],
                 calls :=
                   [SetEntry (sampleEntry ''E1'' ''CP-EAST-MAIN'' ''user-op-east'' 3 3)]\<rparr>)))
       = [(''E1'', sampleEntry ''E1'' ''CP-EAST-MAIN'' ''user-op-east'' 3 3)]"
proof -
  let ?e = "sampleEntry ''E1'' ''CP-EAST-MAIN'' ''user-op-east'' 3 3"
  let ?db1 = "emptyDB\<lparr>entriesColl := [(''E1'', ?e)], calls := [SetEntry ?e]\<rparr>"
  let ?resp = "\<lparr>Success = True, Accepted = 1, Rejected = 0, RejectedIDs = [],
          Message = ''Sync completed''\<rparr>"
  have m: "Method (pushRequest opEast [?e]) = ''POST''"
    and u: "CtxUser (pushRequest opEast [?e]) = Some opEast"
    and b: "Body (pushRequest opEast [?e]) = Some \<lparr>ReqEntries = [?e]\<rparr>"
    by (simp_all add: pushRequest_def)
  have ev: "Push (pushRequest opEast [?e]) emptyDB = (WriteJSON ?resp, ?db1)"
    by code_simp
  have acc: "Accepted ?resp = 1" by simp
  have d: "distinct (map fst (entriesColl emptyDB))" by (simp add: emptyDB_def)
  from Push_same_entry_twice [OF m u b ev acc d]
  have "entriesColl (snd (Push (pushRequest opEast [?e]) ?db1)) = entriesColl ?db1"
    by simp
  then show ?thesis using ev by simp
qed

text \<open>
  C4. \<open>Push\<close> and \<open>CreateEntry\<close> never read the clock: an accepted entry is stored with the
  \<open>created_at\<close> and \<open>updated_at\<close> the client sent. An entry sent without them keeps the
  zero instant, and a second push of a record id with an older \<open>updated_at\<close> moves the
  stored \<open>updated_at\<close> backwards (from 10 to 5 below).
\<close>

theorem Push_keeps_client_timestamps:
  "map (\<lambda>d. (fst d, CreatedAt (snd d), UpdatedAt (snd d)))
     (entriesColl (snd (Push
        (pushRequest opEast [sampleEntry ''E1'' ''CP-EAST-MAIN'' ''user-op-east'' 0 0])
        emptyDB)))
     = [(''E1'', 0, 0)]
   \<and> map (\<lambda>d. (fst d, CreatedAt (snd d), UpdatedAt (snd d)))
     (entriesColl (snd (Push
        (pushRequest opEast [sampleEntry ''E1'' ''CP-EAST-MAIN'' ''user-op-east'' 10 10])
        emptyDB)))
     = [(''E1'', 10, 10)]
   \<and> map (\<lambda>d. (fst d, CreatedAt (snd d), UpdatedAt (snd d)))
     (entriesColl (snd (Push
        (pushRequest opEast [sampleEntry ''E1'' ''CP-EAST-MAIN'' ''user-op-east'' 5 5])
        (snd (Push
          (pushRequest opEast [sampleEntry ''E1'' ''CP-EAST-MAIN'' ''user-op-east'' 10 10])
          emptyDB)))))
     = [(''E1'', 5, 5)]"
  by code_simp

subsection \<open>Pull\<close>

lemma filterEntriesByRole_visible:
  "filterEntriesByRole es user = visible_entries es user"
  by (simp add: filterEntriesByRole_def visible_entries_def filterManaged_filter
      filterOwn_filter)

lemma visible_entries_filter:
  "visible_entries (filter P es) user = filter P (visible_entries es user)"
  by (auto simp: visible_entries_def intro: filter_cong)

lemma pullRespond_ok:
  "pullRespond user (Inr es, db') =
     (WriteJSON \<lparr>Entries = visible_entries es user,
                 Count = length (visible_entries es user)\<rparr>, db')"
  by (simp add: pullRespond_def filterEntriesByRole_visible Let_def)

lemma GetEntriesSince_ok:
  "\<not> callFails db \<Longrightarrow>
     GetEntriesSince T db
       = (Inr (filter (\<lambda>e. T < CreatedAt e) (map snd (entriesColl db))),
          logCall (QueryEntriesSince T) db)"
  by (simp add: GetEntriesSince_def)

lemma GetAllEntries_ok:
  "\<not> callFails db \<Longrightarrow>
     GetAllEntries db = (Inr (map snd (entriesColl db)), logCall ListEntries db)"
  by (simp add: GetAllEntries_def)

text \<open>
  C3 (as the code has it). For an authenticated GET whose store read succeeds: with a
  \<open>since\<close> parameter that parses to \<open>T\<close>, \<open>Pull\<close> returns exactly the visible entries
  whose \<open>created_at\<close> is strictly greater than \<open>T\<close>; without the parameter it returns all
  visible entries; \<open>count\<close> is the length of the returned list. When the store read
  fails (the parameter being absent or well formed, so that the read is made), \<open>Pull\<close>
  answers with status 500.
\<close>

theorem Pull_since_created_at:
  assumes "Method r = ''GET''" and "CtxUser r = Some user"
  shows "(\<not> callFails db \<longrightarrow>
           (Since r \<noteq> [] \<and> parseRFC3339 (Since r) = Some T \<longrightarrow>
              Pull parseRFC3339 r db
                = (WriteJSON
                     \<lparr>Entries = filter (\<lambda>e. T < CreatedAt e)
                                  (visible_entries (map snd (entriesColl db)) user),
                      Count = length (filter (\<lambda>e. T < CreatedAt e)
                                  (visible_entries (map snd (entriesColl db)) user))\<rparr>,
                   logCall (QueryEntriesSince T) db))
           \<and> (Since r = [] \<longrightarrow>
                Pull parseRFC3339 r db
                  = (WriteJSON
                       \<lparr>Entries = visible_entries (map snd (entriesColl db)) user,
                        Count = length (visible_entries (map snd (entriesColl db)) user)\<rparr>,
                     logCall ListEntries db)))
       \<and> (callFails db \<and> (Since r = [] \<or> parseRFC3339 (Since r) \<noteq> None) \<longrightarrow>
            fst (Pull parseRFC3339 r db) = WriteError ''Failed to retrieve entries'' 500)"
proof (intro conjI impI)
  assume up: "\<not> callFails db"
    and s: "Since r \<noteq> [] \<and> parseRFC3339 (Since r) = Some T"
  have "Pull parseRFC3339 r db = pullRespond user (GetEntriesSince T db)"
    using assms(1,2) s by (simp add: Pull_def)
  then show "Pull parseRFC3339 r db
      = (WriteJSON
           \<lparr>Entries = filter (\<lambda>e. T < CreatedAt e)
                        (visible_entries (map snd (entriesColl db)) user),
            Count = length (filter (\<lambda>e. T < CreatedAt e)
                        (visible_entries (map snd (entriesColl db)) user))\<rparr>,
         logCall (QueryEntriesSince T) db)"
    by (simp only: GetEntriesSince_ok [OF up] pullRespond_ok visible_entries_filter)
next
  assume up: "\<not> callFails db" and s: "Since r = []"
  have "Pull parseRFC3339 r db = pullRespond user (GetAllEntries db)"
    using assms(1,2) s by (simp add: Pull_def)
  then show "Pull parseRFC3339 r db
      = (WriteJSON
           \<lparr>Entries = visible_entries (map snd (entriesColl db)) user,
            Count = length (visible_entries (map snd (entriesColl db)) user)\<rparr>,
         logCall ListEntries db)"
    by (simp only: GetAllEntries_ok [OF up] pullRespond_ok)
next
  assume f: "callFails db \<and> (Since r = [] \<or> parseRFC3339 (Since r) \<noteq> None)"
  then show "fst (Pull parseRFC3339 r db) = WriteError ''Failed to retrieve entries'' 500"
    using assms(1,2)
    by (auto simp: Pull_def pullRespond_def GetEntriesSince_def GetAllEntries_def)
qed

theorem Pull_since_created_at_witness:
  "Pull sampleParse (pullRequest supervisorJohn ''0001-01-01T00:00:05Z'')
     (emptyDB\<lparr>entriesColl :=
        [(''E1'', sampleEntry ''E1'' ''CP-EAST-MAIN'' ''user-op-east'' 3 30),
         (''E2'', sampleEntry ''E2'' ''CP-EAST-MAIN'' ''user-op-east'' 8 8),
         (''E3'', sampleEntry ''E3'' ''CP-WEST-GATE'' ''user-op-west'' 9 9)]\<rparr>)
   = (WriteJSON \<lparr>Entries = [sampleEntry ''E2'' ''CP-EAST-MAIN'' ''user-op-east'' 8 8],
                 Count = 1\<rparr>,
      emptyDB\<lparr>entriesColl :=
        [(''E1'', sampleEntry ''E1'' ''CP-EAST-MAIN'' ''user-op-east'' 3 30),
         (''E2'', sampleEntry ''E2'' ''CP-EAST-MAIN'' ''user-op-east'' 8 8),
         (''E3'', sampleEntry ''E3'' ''CP-WEST-GATE'' ''user-op-west'' 9 9)],
        calls := [QueryEntriesSince 5]\<rparr>)"
proof -
  let ?db = "emptyDB\<lparr>entriesColl :=
        [(''E1'', sampleEntry ''E1'' ''CP-EAST-MAIN'' ''user-op-east'' 3 30),
         (''E2'', sampleEntry ''E2'' ''CP-EAST-MAIN'' ''user-op-east'' 8 8),
         (''E3'', sampleEntry ''E3'' ''CP-WEST-GATE'' ''user-op-west'' 9 9)]\<rparr>"
  let ?r = "pullRequest supervisorJohn ''0001-01-01T00:00:05Z''"
  have m: "Method ?r = ''GET''" and u: "CtxUser ?r = Some supervisorJohn"
    by (simp_all add: pullRequest_def)
  have up: "\<not> callFails ?db" by (simp add: callFails_def emptyDB_def)
  have s: "Since ?r \<noteq> [] \<and> sampleParse (Since ?r) = Some 5"
    by (simp add: pullRequest_def sampleParse_def)
  have vis: "filter (\<lambda>e. 5 < CreatedAt e)
               (visible_entries (map snd (entriesColl ?db)) supervisorJohn)
             = [sampleEntry ''E2'' ''CP-EAST-MAIN'' ''user-op-east'' 8 8]"
    by (simp add: visible_entries_def supervisorJohn_def sampleEntry_def emptyDB_def
        RoleSupervisor_def RoleAdmin_def)
  have lg: "logCall (QueryEntriesSince 5) ?db = ?db\<lparr>calls := [QueryEntriesSince 5]\<rparr>"
    by (simp add: logCall_def emptyDB_def)
  have "Pull sampleParse ?r ?db
          = (WriteJSON
               \<lparr>Entries = filter (\<lambda>e. 5 < CreatedAt e)
                            (visible_entries (map snd (entriesColl ?db)) supervisorJohn),
                Count = length (filter (\<lambda>e. 5 < CreatedAt e)
                            (visible_entries (map snd (entriesColl ?db)) supervisorJohn))\<rparr>,
             logCall (QueryEntriesSince 5) ?db)"
    using Pull_since_created_at [OF m u, of ?db sampleParse 5] s up by blast
  then show ?thesis
    unfolding vis lg by simp
qed

text \<open>
  The delta as the claim states it, on \<open>updated_at\<close>, is not what \<open>Pull\<close> returns: an
  entry pushed with \<open>created_at = 1\<close> and \<open>updated_at = 10\<close> is visible to the Admin and
  newer than \<open>since = 5\<close> by \<open>updated_at\<close>, and \<open>Pull\<close> leaves it out.
\<close>

theorem Pull_since_updated_at_counterexample:
  "fst (Pull sampleParse (pullRequest adminUser ''0001-01-01T00:00:05Z'')
         (snd (Push (pushRequest opEast
                 [sampleEntry ''E1'' ''CP-EAST-MAIN'' ''user-op-east'' 1 10]) emptyDB)))
     = WriteJSON \<lparr>Entries = [], Count = 0\<rparr>
   \<and> filter (\<lambda>e. 5 < UpdatedAt e)
       (visible_entries
          (map snd (entriesColl (snd (Push (pushRequest opEast
                 [sampleEntry ''E1'' ''CP-EAST-MAIN'' ''user-op-east'' 1 10]) emptyDB))))
          adminUser)
     = [sampleEntry ''E1'' ''CP-EAST-MAIN'' ''user-op-east'' 1 10]"
  by code_simp

subsection \<open>Password policy and password reset\<close>

lemma strengthLoop_flags:
  "strengthLoop p (l, n)
     = (l \<or> (\<exists>c \<in> set p. isLetter c), n \<or> (\<exists>c \<in> set p. isNumber c))"
  by (induction p arbitrary: l n) auto

lemma ValidatePasswordStrength_cases:
  "ValidatePasswordStrength password =
     (if length password < MinPasswordLength then Some PasswordTooShort
      else if \<not> (\<exists>c \<in> set password. isLetter c) then Some PasswordNoLetter
      else if \<not> (\<exists>c \<in> set password. isNumber c) then Some PasswordNoNumber
      else None)"
  by (simp add: ValidatePasswordStrength_def strengthLoop_flags)

text \<open>
  C8 (as the code has it). \<open>ValidatePasswordStrength\<close> accepts a password exactly when it
  has the minimum length, an ASCII letter and an ASCII digit. \<open>HashPassword\<close> checks the
  length only: it fails with the too-short error exactly for a password under the minimum
  length and otherwise returns what bcrypt returns.
\<close>

theorem password_policy_split:
  "(ValidatePasswordStrength password = None \<longleftrightarrow>
      MinPasswordLength \<le> length password
      \<and> (\<exists>c \<in> set password. isLetter c) \<and> (\<exists>c \<in> set password. isNumber c))
   \<and> (HashPassword bcrypt password = Inl PasswordTooShort \<longleftrightarrow>
        length password < MinPasswordLength)
   \<and> (MinPasswordLength \<le> length password \<longrightarrow>
        HashPassword bcrypt password
          = (case bcrypt password BcryptCost of
               None \<Rightarrow> Inl HashFailed
             | Some digest \<Rightarrow> Inr digest))"
  by (auto simp: ValidatePasswordStrength_cases HashPassword_def split: option.splits)

theorem password_policy_split_witness:
  "ValidatePasswordStrength ''passw0rd'' = None
   \<and> MinPasswordLength \<le> length ''passw0rd''
   \<and> HashPassword sampleBcrypt ''passw0rd'' = Inr ''$2a$passw0rd''
   \<and> HashPassword sampleBcrypt ''abc'' = Inl PasswordTooShort"
proof -
  have len: "MinPasswordLength \<le> length ''passw0rd''"
    by (simp add: MinPasswordLength_def)
  have short: "length ''abc'' < MinPasswordLength"
    by (simp add: MinPasswordLength_def)
  have l: "\<exists>c \<in> set ''passw0rd''. isLetter c"
    by (simp add: isLetter_def)
  have n: "\<exists>c \<in> set ''passw0rd''. isNumber c"
    by (simp add: isNumber_def)
  have b: "sampleBcrypt ''passw0rd'' BcryptCost = Some ''$2a$passw0rd''"
    by (simp add: sampleBcrypt_def)
  show ?thesis
    using password_policy_split [of "''passw0rd''" sampleBcrypt]
      password_policy_split [of "''abc''" sampleBcrypt] len short l n b
    by simp
qed

text \<open>
  The seeded password \<^verbatim>\<open>"password"\<close> has no digit: the strength check refuses it,
  and \<open>HashPassword\<close> hashes it.
\<close>

theorem HashPassword_no_digit_counterexample:
  "HashPassword sampleBcrypt ''password'' = Inr ''$2a$password''
   \<and> ValidatePasswordStrength ''password'' = Some PasswordNoNumber"
  by code_simp

text \<open>
  C9. A password-reset request whose new password fails the strength policy leaves the
  store exactly as it was, the log of store calls included (so nothing was read either),
  and an authenticated POST is answered with status 400.
\<close>

theorem ResetPassword_weak_password:
  assumes "Body r = Some req" and "ValidatePasswordStrength (NewPassword req) \<noteq> None"
  shows "snd (ResetPassword bcrypt now r db) = db
     \<and> (Method r = ''POST'' \<and> CtxUser r \<noteq> None \<longrightarrow>
          (\<exists>msg. fst (ResetPassword bcrypt now r db) = WriteError msg 400))"
  using assms by (auto simp: ResetPassword_def split: option.splits)

theorem ResetPassword_weak_password_witness:
  "ValidatePasswordStrength ''abc'' = Some PasswordTooShort
   \<and> ResetPassword sampleBcrypt 50
       \<lparr>Method = ''POST'', CtxUser = Some supervisorJohn, Since = [],
        Body = Some \<lparr>TargetUserID = ''user-op-east'', NewPassword = ''abc''\<rparr>\<rparr> seededDB
     = (WriteError ''password must be at least 8 characters'' 400, seededDB)"
proof -
  let ?req = "\<lparr>TargetUserID = ''user-op-east'', NewPassword = ''abc''\<rparr>"
  let ?r = "\<lparr>Method = ''POST'', CtxUser = Some supervisorJohn, Since = [],
        Body = Some ?req\<rparr>"
  have v: "ValidatePasswordStrength ''abc'' = Some PasswordTooShort"
    by (simp add: ValidatePasswordStrength_def MinPasswordLength_def)
  have b: "Body ?r = Some ?req" by simp
  have w: "ValidatePasswordStrength (NewPassword ?req) \<noteq> None" using v by simp
  have f: "fst (ResetPassword sampleBcrypt 50 ?r seededDB)
             = WriteError ''password must be at least 8 characters'' 400"
    by (simp add: ResetPassword_def v)
  from ResetPassword_weak_password [OF b w, of sampleBcrypt 50 seededDB]
  have "snd (ResetPassword sampleBcrypt 50 ?r seededDB) = seededDB" by simp
  then show ?thesis using f v by (simp add: prod_eq_iff)
qed

lemma roles_distinct:
  "RoleAdmin \<noteq> RoleSupervisor" "RoleAdmin \<noteq> RoleGateOperator"
  "RoleSupervisor \<noteq> RoleGateOperator"
  by (simp_all add: RoleAdmin_def RoleSupervisor_def RoleGateOperator_def)

lemma ResetPassword_frame:
  "usersColl (snd (ResetPassword bcrypt now r db)) = usersColl db
   \<and> entriesColl (snd (ResetPassword bcrypt now r db)) = entriesColl db"
  by (auto simp: ResetPassword_def GetUser_def StorePasswordHash_def logCall_def
      split: option.splits sum.splits prod.splits if_splits)

lemma ResetPassword_supervisor_unmanaged:
  assumes "CtxUser r = Some requester" and "Role requester = RoleSupervisor"
    and "Body r = Some req" and "TargetUserID req \<notin> set (ManagedOperators requester)"
  shows "passwordsColl (snd (ResetPassword bcrypt now r db)) = passwordsColl db"
    and "\<exists>msg status. fst (ResetPassword bcrypt now r db) = WriteError msg status"
  using assms
  by (auto simp: ResetPassword_def GetUser_def logCall_def foundIn_set
      split: option.splits sum.splits prod.splits if_splits)

lemma ResetPassword_supervisor_forbidden:
  assumes "CtxUser r = Some requester" and "Role requester = RoleSupervisor"
    and "Body r = Some req" and "TargetUserID req \<notin> set (ManagedOperators requester)"
    and "Method r = ''POST''" and "TargetUserID req \<noteq> []"
    and "ValidatePasswordStrength (NewPassword req) = None"
    and "\<not> callFails db" and "map_of (usersColl db) (TargetUserID req) = Some target"
  shows "ResetPassword bcrypt now r db
     = (WriteError ''You can only reset passwords for operators you manage'' 403,
        logCall (GetUserDoc (TargetUserID req)) db)"
proof -
  have "NewPassword req \<noteq> []"
    using assms(7) by (auto simp: ValidatePasswordStrength_def MinPasswordLength_def)
  then show ?thesis
    using assms by (simp add: ResetPassword_def GetUser_def foundIn_set)
qed

lemma ResetPassword_admin_any:
  assumes "CtxUser r = Some requester" and "Role requester = RoleAdmin"
    and "Body r = Some req"
    and "Method r = ''POST''" and "TargetUserID req \<noteq> []"
    and "ValidatePasswordStrength (NewPassword req) = None"
    and "outage db = []" and "map_of (usersColl db) (TargetUserID req) = Some target"
    and "bcrypt (NewPassword req) BcryptCost = Some digest"
  shows "fst (ResetPassword bcrypt now r db) = WriteJSON ''Password reset successfully''
     \<and> passwordsColl (snd (ResetPassword bcrypt now r db))
         = AList.update (TargetUserID req) (digest, now) (passwordsColl db)"
proof -
  have len: "\<not> length (NewPassword req) < MinPasswordLength"
    using assms(6) by (auto simp: ValidatePasswordStrength_def split: if_splits)
  then have ne: "NewPassword req \<noteq> []"
    by (auto simp: MinPasswordLength_def)
  show ?thesis
    using assms len ne roles_distinct
    by (simp add: ResetPassword_def GetUser_def HashPassword_def StorePasswordHash_def
        callFails_def logCall_def)
qed

text \<open>
  C10 (as the code has it). Behind the Supervisor-or-Admin role gate, a reset requested by
  a Supervisor succeeds only when the target is one of the requester's managed operators.
  For any other target the request fails and no password is stored; the failure is the
  Forbidden error when the request is a POST with a non-empty target, a new password that
  passes the strength check and a target that the store finds, since the handler checks
  those first. A reset requested by an Admin succeeds for every target that exists, when
  the password passes the strength check and the store and bcrypt do not fail.
\<close>

theorem ResetPassword_authorization:
  assumes "CtxUser r = Some requester" and "Body r = Some req"
  shows "(Role requester = RoleSupervisor
            \<and> TargetUserID req \<notin> set (ManagedOperators requester) \<longrightarrow>
            (\<exists>msg status. fst (resetPasswordRoute bcrypt now r db) = WriteError msg status)
            \<and> passwordsColl (snd (resetPasswordRoute bcrypt now r db)) = passwordsColl db
            \<and> (Method r = ''POST'' \<and> TargetUserID req \<noteq> []
                 \<and> ValidatePasswordStrength (NewPassword req) = None
                 \<and> \<not> callFails db \<and> map_of (usersColl db) (TargetUserID req) \<noteq> None \<longrightarrow>
                 fst (resetPasswordRoute bcrypt now r db)
                   = WriteError ''You can only reset passwords for operators you manage''
                       403))
       \<and> (Role requester = RoleAdmin \<and> Method r = ''POST'' \<and> TargetUserID req \<noteq> []
            \<and> ValidatePasswordStrength (NewPassword req) = None
            \<and> outage db = [] \<and> map_of (usersColl db) (TargetUserID req) \<noteq> None
            \<and> bcrypt (NewPassword req) BcryptCost = Some digest \<longrightarrow>
            fst (resetPasswordRoute bcrypt now r db)
              = WriteJSON ''Password reset successfully''
            \<and> passwordsColl (snd (resetPasswordRoute bcrypt now r db))
                = AList.update (TargetUserID req) (digest, now) (passwordsColl db))"
proof (intro conjI impI)
  assume a: "Role requester = RoleSupervisor
               \<and> TargetUserID req \<notin> set (ManagedOperators requester)"
  then have route: "resetPasswordRoute bcrypt now r db = ResetPassword bcrypt now r db"
    using assms(1) by (simp add: resetPasswordRoute_def RequireRole_def)
  show "\<exists>msg status. fst (resetPasswordRoute bcrypt now r db) = WriteError msg status"
    using ResetPassword_supervisor_unmanaged(2) [OF assms(1) _ assms(2)] a route by simp
  show "passwordsColl (snd (resetPasswordRoute bcrypt now r db)) = passwordsColl db"
    using ResetPassword_supervisor_unmanaged(1) [OF assms(1) _ assms(2)] a route by simp
  assume b: "Method r = ''POST'' \<and> TargetUserID req \<noteq> []
       \<and> ValidatePasswordStrength (NewPassword req) = None
       \<and> \<not> callFails db \<and> map_of (usersColl db) (TargetUserID req) \<noteq> None"
  then obtain target where "map_of (usersColl db) (TargetUserID req) = Some target"
    by auto
  from ResetPassword_supervisor_forbidden [OF assms(1) _ assms(2) _ _ _ _ _ this, of bcrypt now]
  show "fst (resetPasswordRoute bcrypt now r db)
          = WriteError ''You can only reset passwords for operators you manage'' 403"
    using a b route by simp
next
  assume c: "Role requester = RoleAdmin \<and> Method r = ''POST'' \<and> TargetUserID req \<noteq> []
       \<and> ValidatePasswordStrength (NewPassword req) = None
       \<and> outage db = [] \<and> map_of (usersColl db) (TargetUserID req) \<noteq> None
       \<and> bcrypt (NewPassword req) BcryptCost = Some digest"
  then have route: "resetPasswordRoute bcrypt now r db = ResetPassword bcrypt now r db"
    using assms(1) by (simp add: resetPasswordRoute_def RequireRole_def)
  from c obtain target where t: "map_of (usersColl db) (TargetUserID req) = Some target"
    by auto
  have ok: "fst (ResetPassword bcrypt now r db) = WriteJSON ''Password reset successfully''
     \<and> passwordsColl (snd (ResetPassword bcrypt now r db))
         = AList.update (TargetUserID req) (digest, now) (passwordsColl db)"
    using ResetPassword_admin_any [OF assms(1) _ assms(2) _ _ _ _ t, of bcrypt digest now] c
    by simp
  show "fst (resetPasswordRoute bcrypt now r db) = WriteJSON ''Password reset successfully''"
    using ok route by simp
  show "passwordsColl (snd (resetPasswordRoute bcrypt now r db))
          = AList.update (TargetUserID req) (digest, now) (passwordsColl db)"
    using ok route by simp
qed

theorem ResetPassword_authorization_witness:
  "fst (resetPasswordRoute sampleBcrypt 50
          \<lparr>Method = ''POST'', CtxUser = Some supervisorJohn, Since = [],
           Body = Some \<lparr>TargetUserID = ''user-op-west'', NewPassword = ''passw0rd''\<rparr>\<rparr>
          seededDB)
     = WriteError ''You can only reset passwords for operators you manage'' 403
   \<and> passwordsColl (snd (resetPasswordRoute sampleBcrypt 50
          \<lparr>Method = ''POST'', CtxUser = Some supervisorJohn, Since = [],
           Body = Some \<lparr>TargetUserID = ''user-op-west'', NewPassword = ''passw0rd''\<rparr>\<rparr>
          seededDB)) = []
   \<and> fst (resetPasswordRoute sampleBcrypt 50
          \<lparr>Method = ''POST'', CtxUser = Some adminUser, Since = [],
           Body = Some \<lparr>TargetUserID = ''user-op-west'', NewPassword = ''passw0rd''\<rparr>\<rparr>
          seededDB)
     = WriteJSON ''Password reset successfully''
   \<and> passwordsColl (snd (resetPasswordRoute sampleBcrypt 50
          \<lparr>Method = ''POST'', CtxUser = Some adminUser, Since = [],
           Body = Some \<lparr>TargetUserID = ''user-op-west'', NewPassword = ''passw0rd''\<rparr>\<rparr>
          seededDB)) = [(''user-op-west'', ''$2a$passw0rd'', 50)]"
proof -
  let ?req = "\<lparr>TargetUserID = ''user-op-west'', NewPassword = ''passw0rd''\<rparr>"
  let ?rs = "\<lparr>Method = ''POST'', CtxUser = Some supervisorJohn, Since = [],
           Body = Some ?req\<rparr>"
  let ?ra = "\<lparr>Method = ''POST'', CtxUser = Some adminUser, Since = [],
           Body = Some ?req\<rparr>"
  have v: "ValidatePasswordStrength (NewPassword ?req) = None"
    by code_simp
  have look: "map_of (usersColl seededDB) (TargetUserID ?req) \<noteq> None"
    by (simp add: seededDB_def)
  have up: "\<not> callFails seededDB" "outage seededDB = []" "passwordsColl seededDB = []"
    by (simp_all add: callFails_def seededDB_def)
  have sup: "Role supervisorJohn = RoleSupervisor
               \<and> TargetUserID ?req \<notin> set (ManagedOperators supervisorJohn)"
    by (simp add: supervisorJohn_def)
  have adm: "Role adminUser = RoleAdmin" by (simp add: adminUser_def)
  have b: "sampleBcrypt (NewPassword ?req) BcryptCost = Some ''$2a$passw0rd''"
    by (simp add: sampleBcrypt_def)
  have s: "fst (resetPasswordRoute sampleBcrypt 50 ?rs seededDB)
             = WriteError ''You can only reset passwords for operators you manage'' 403
           \<and> passwordsColl (snd (resetPasswordRoute sampleBcrypt 50 ?rs seededDB)) = []"
    using ResetPassword_authorization
            [of ?rs supervisorJohn ?req sampleBcrypt 50 seededDB] sup v look up
    by simp
  have a: "fst (resetPasswordRoute sampleBcrypt 50 ?ra seededDB)
             = WriteJSON ''Password reset successfully''
           \<and> passwordsColl (snd (resetPasswordRoute sampleBcrypt 50 ?ra seededDB))
               = [(''user-op-west'', ''$2a$passw0rd'', 50)]"
    using ResetPassword_authorization
            [of ?ra adminUser ?req sampleBcrypt 50 seededDB "''$2a$passw0rd''"]
          adm v look up b
    by simp
  show ?thesis using s a by simp
qed

text \<open>
  Two requests by a Supervisor that the claim as stated gets wrong. A target that does not
  exist and is not managed is answered with 404, not with Forbidden. And once an Admin
  update has named the supervisor as their own supervisor, the supervisor's id is in their
  own managed operators and the supervisor resets their own password.
\<close>

theorem ResetPassword_forbidden_counterexample:
  "fst (resetPasswordRoute sampleBcrypt 50
          \<lparr>Method = ''POST'', CtxUser = Some supervisorJohn, Since = [],
           Body = Some \<lparr>TargetUserID = ''user-ghost'', NewPassword = ''passw0rd''\<rparr>\<rparr>
          seededDB)
     = WriteError ''User not found'' 404
   \<and> map_of (usersColl (snd (UpdateUser
        \<lparr>Method = ''PUT'', CtxUser = Some adminUser, Since = [],
         Body = Some \<lparr>UpdUserID = ''user-supervisor-john'', UpdRole = [],
                  UpdAllowedCheckpoints = None,
                  UpdSupervisorID = ''user-supervisor-john''\<rparr>\<rparr> seededDB)))
        ''user-supervisor-john''
     = Some (supervisorJohn\<lparr>SupervisorID := ''user-supervisor-john'',
               ManagedOperators := [''user-op-east'', ''user-supervisor-john'']\<rparr>)
   \<and> fst (resetPasswordRoute sampleBcrypt 50
          \<lparr>Method = ''POST'',
           CtxUser = Some (supervisorJohn\<lparr>SupervisorID := ''user-supervisor-john'',
               ManagedOperators := [''user-op-east'', ''user-supervisor-john'']\<rparr>),
           Since = [],
           Body = Some \<lparr>TargetUserID = ''user-supervisor-john'',
                    NewPassword = ''passw0rd''\<rparr>\<rparr>
          (snd (UpdateUser
        \<lparr>Method = ''PUT'', CtxUser = Some adminUser, Since = [],
         Body = Some \<lparr>UpdUserID = ''user-supervisor-john'', UpdRole = [],
                  UpdAllowedCheckpoints = None,
                  UpdSupervisorID = ''user-supervisor-john''\<rparr>\<rparr> seededDB)))
     = WriteJSON ''Password reset successfully''"
  by code_simp

subsection \<open>Supervisor links\<close>












lemma logCall_frame [simp]:
  "usersColl (logCall c db) = usersColl db" "outage (logCall c db) = outage db"
  "passwordsColl (logCall c db) = passwordsColl db" "entriesColl (logCall c db) = entriesColl db"
  by (simp_all add: logCall_def)




























end
